theory Spec2Isabelle
  imports Main "HOL-Library.Word" "HOL-Library.Sublist"
begin

section \<open>Hash-tree roots of SSZ values by reflection (treeroot.go)\<close>

text \<open>
  The development embeds the three mutually recursive functions of treeroot.go,
  \<open>buildRootFromType\<close>, \<open>buildRootFromStruct\<close> and \<open>buildRootFromSlice\<close>.
  The Go code mutates one \<open>Hasher\<close> in place and returns an \<open>error\<close>; here the
  hasher is passed explicitly, and a call ends in one of three ways: it returns
  \<open>nil\<close> (\<open>Done\<close> with the hasher it leaves), it returns an error (\<open>Failed\<close> with
  the error and the hasher as left at that moment), or a reflection accessor panics
  (\<open>Panicked\<close>). The diagnostics printed under \<open>d.Verbose\<close> and the indentation
  argument \<open>idt\<close> that only they use are left out: they do not touch the result.
\<close>

type_synonym u8 = "8 word"
type_synonym u64 = "64 word"

subsection \<open>Types and values as reflection shows them\<close>

text \<open>The kinds of Go's \<open>reflect.Kind\<close>, in its order.\<close>

datatype kind =
    Invalid | Bool | Int | Int8 | Int16 | Int32 | Int64
  | Uint | Uint8 | Uint16 | Uint32 | Uint64 | Uintptr
  | Float32 | Float64 | Complex64 | Complex128
  | Array | Chan | Func | Interface | Map | Ptr | Slice | String | Struct | UnsafePointer

text \<open>
  A \<open>reflect.Type\<close>: its name, and the structure the traversal walks. \<open>Basic\<close>
  stands for every type whose kind is not pointer, array, slice or struct.
\<close>

datatype rtype =
    Basic string kind
  | PtrTo string rtype
  | ArrayOf string nat rtype
  | SliceOf string rtype
  | StructOf string "StructField list"
and StructField = StructField (FName: string) (FType: rtype) (FTag: string)

fun Name :: "rtype \<Rightarrow> string" where
  "Name (Basic n k) = n"
| "Name (PtrTo n t) = n"
| "Name (ArrayOf n l t) = n"
| "Name (SliceOf n t) = n"
| "Name (StructOf n fs) = n"

fun Kind :: "rtype \<Rightarrow> kind" where
  "Kind (Basic n k) = k"
| "Kind (PtrTo n t) = Ptr"
| "Kind (ArrayOf n l t) = Array"
| "Kind (SliceOf n t) = Slice"
| "Kind (StructOf n fs) = Struct"

text \<open>\<open>Type.Elem()\<close>, \<open>Type.NumField()\<close> and \<open>Type.Field(i)\<close> panic on a type of
  another kind; \<open>None\<close> is the panic.\<close>

fun Elem :: "rtype \<Rightarrow> rtype option" where
  "Elem (PtrTo n t) = Some t"
| "Elem (ArrayOf n l t) = Some t"
| "Elem (SliceOf n t) = Some t"
| "Elem _ = None"

fun NumField :: "rtype \<Rightarrow> nat option" where
  "NumField (StructOf n fs) = Some (length fs)"
| "NumField _ = None"

fun Field_t :: "rtype \<Rightarrow> nat \<Rightarrow> StructField option" where
  "Field_t (StructOf n fs) i = (if i < length fs then Some (fs ! i) else None)"
| "Field_t _ i = None"

text \<open>
  A \<open>reflect.Value\<close>. \<open>Zero\<close> is the invalid zero Value that \<open>Elem()\<close> gives for a
  nil pointer. \<open>BytesV\<close> is an array or slice whose element kind is \<open>Uint8\<close> (the
  values \<open>Bytes()\<close> accepts; an array reaches it addressable, as every value behind
  a pointer or inside a slice is), \<open>SeqV\<close> any other array or slice, \<open>UintV\<close> a
  value of an unsigned kind as \<open>Uint()\<close> reads it, \<open>OtherV\<close> a value of a kind none
  of the accessors below applies to.
\<close>

datatype rvalue =
    Zero
  | BoolV bool
  | UintV u64
  | PtrV "rvalue option"
  | BytesV "u8 list"
  | SeqV "rvalue list"
  | StructV "rvalue list"
  | OtherV

text \<open>The accessors of \<open>reflect.Value\<close> that the code calls; \<open>None\<close> is their panic.\<close>

fun Elem_v :: "rvalue \<Rightarrow> rvalue option" where
  "Elem_v (PtrV None) = Some Zero"
| "Elem_v (PtrV (Some v)) = Some v"
| "Elem_v _ = None"

fun Bool_v :: "rvalue \<Rightarrow> bool option" where
  "Bool_v (BoolV b) = Some b"
| "Bool_v _ = None"

fun Uint_v :: "rvalue \<Rightarrow> u64 option" where
  "Uint_v (UintV w) = Some w"
| "Uint_v _ = None"

fun Bytes :: "rvalue \<Rightarrow> u8 list option" where
  "Bytes (BytesV bs) = Some bs"
| "Bytes _ = None"

fun Len :: "rvalue \<Rightarrow> nat option" where
  "Len (BytesV bs) = Some (length bs)"
| "Len (SeqV vs) = Some (length vs)"
| "Len _ = None"

fun Index_v :: "rvalue \<Rightarrow> nat \<Rightarrow> rvalue option" where
  "Index_v (BytesV bs) i = (if i < length bs then Some (UintV (ucast (bs ! i))) else None)"
| "Index_v (SeqV vs) i = (if i < length vs then Some (vs ! i) else None)"
| "Index_v _ i = None"

fun Field_v :: "rvalue \<Rightarrow> nat \<Rightarrow> rvalue option" where
  "Field_v (StructV vs) i = (if i < length vs then Some (vs ! i) else None)"
| "Field_v _ i = None"

text \<open>\<open>strings.Contains\<close>.\<close>

fun Contains :: "string \<Rightarrow> string \<Rightarrow> bool" where
  "Contains [] substr = (substr = [])"
| "Contains (c # s) substr = (prefix substr (c # s) \<or> Contains s substr)"

text \<open>Modelled from the spec: \<open>byteType\<close>, declared outside treeroot.go, is the type of
  the "unsigned 8-bit unit" that the nested case compares element types with.\<close>

definition byteType :: rtype where
  "byteType = Basic ''uint8'' Uint8"

subsection \<open>The hash-tree buffer\<close>

text \<open>Modelled from the spec: the \<open>Hasher\<close> is defined outside treeroot.go. It is "an
  append-only chunk sequence with a movable high-water mark", here the bytes of the
  buffer, together with the pairwise hash, which stays a parameter. The spec gives
  its primitives no failure, and they are total here.\<close>

record Hasher =
  buf :: "u8 list"
  hash :: "u8 list \<Rightarrow> u8 list \<Rightarrow> u8 list"

text \<open>Modelled from the spec: a chunk is a 32-byte unit; missing bytes are zero.\<close>

definition chunk32 :: "u8 list \<Rightarrow> u8 list" where
  "chunk32 bs = take 32 (bs @ replicate 32 0)"

text \<open>Modelled from the spec: "zero-padded-to-32-byte-boundary".\<close>

definition pad32 :: "u8 list \<Rightarrow> u8 list" where
  "pad32 bs = bs @ replicate ((32 - length bs mod 32) mod 32) 0"

text \<open>Modelled from the spec: the "natural little-endian" encoding of an unsigned
  value in \<open>n\<close> bytes.\<close>

definition leBytes :: "nat \<Rightarrow> 'a::len word \<Rightarrow> u8 list" where
  "leBytes n w = map (\<lambda>i. ucast (drop_bit (8 * i) w)) [0..<n]"

text \<open>Modelled from the spec: the hash of two chunks is a chunk.\<close>

definition doHash :: "Hasher \<Rightarrow> u8 list \<Rightarrow> u8 list \<Rightarrow> u8 list" where
  "doHash h a b = chunk32 (hash h a b)"

text \<open>Modelled from the spec: "zero-chunk padding up to the next power of two \<ge> N";
  \<open>getDepth n\<close> is the depth of the smallest balanced tree with \<open>n\<close> leaves.\<close>

function getDepth :: "nat \<Rightarrow> nat" where
  "getDepth n = (if n \<le> 1 then 0 else Suc (getDepth ((n + 1) div 2)))"
  by pat_completeness auto
termination
  by (relation "measure (\<lambda>n. n)") auto

declare getDepth.simps [simp del]

text \<open>Modelled from the spec: "balanced binary Merkle combination with implicit
  zero-chunk padding", over the byte string of the chunks.\<close>

primrec merkleTree :: "Hasher \<Rightarrow> nat \<Rightarrow> u8 list \<Rightarrow> u8 list" where
  "merkleTree h 0 bs = chunk32 bs"
| "merkleTree h (Suc depth) bs =
     doHash h (merkleTree h depth (take (32 * 2 ^ depth) bs))
              (merkleTree h depth (drop (32 * 2 ^ depth) bs))"

text \<open>Modelled from the spec: the Merkle root of the chunks of \<open>input\<close>, where a
  capacity \<open>limit\<close> in chunks "bounds the zero-padding depth" and no capacity
  (\<open>0\<close>) means the chunk count itself.\<close>

definition merkleRoot :: "Hasher \<Rightarrow> nat \<Rightarrow> u8 list \<Rightarrow> u8 list" where
  "merkleRoot h limit input =
     merkleTree h (getDepth (max limit ((length input + 31) div 32))) input"

text \<open>Modelled from the spec: \<open>mark() \<rightarrow> position\<close>.\<close>

definition Index :: "Hasher \<Rightarrow> nat" where
  "Index h = length (buf h)"

text \<open>Modelled from the spec: "pack bytes densely across chunks (no per-element
  boundary alignment)".\<close>

definition Append :: "Hasher \<Rightarrow> u8 list \<Rightarrow> Hasher" where
  "Append h bs = h\<lparr>buf := buf h @ bs\<rparr>"

text \<open>Modelled from the spec: \<open>fillToChunkBoundary()\<close>, "pad the final chunk to 32 bytes".\<close>

definition FillUpTo32 :: "Hasher \<Rightarrow> Hasher" where
  "FillUpTo32 h = h\<lparr>buf := pad32 (buf h)\<rparr>"

text \<open>Modelled from the spec: \<open>appendBytes32(buf)\<close>, "pack its bytes into whole chunks".\<close>

definition AppendBytes32 :: "Hasher \<Rightarrow> u8 list \<Rightarrow> Hasher" where
  "AppendBytes32 h bs = h\<lparr>buf := buf h @ pad32 bs\<rparr>"

text \<open>Modelled from the spec: \<open>appendUint64Packed(v)\<close>, an "8-byte little-endian
  value", four of them per chunk.\<close>

definition AppendUint64 :: "Hasher \<Rightarrow> u64 \<Rightarrow> Hasher" where
  "AppendUint64 h w = h\<lparr>buf := buf h @ leBytes 8 w\<rparr>"

text \<open>Modelled from the spec: \<open>putScalar(bits)\<close>, "the scalar's natural little-endian
  chunk-padded encoding", one chunk; for a boolean and for the four widths
  (\<open>PutBool\<close>, \<open>PutUint8\<close>, \<open>PutUint16\<close>, \<open>PutUint32\<close>, \<open>PutUint64\<close>).\<close>

definition PutBool :: "Hasher \<Rightarrow> bool \<Rightarrow> Hasher" where
  "PutBool h b = h\<lparr>buf := buf h @ pad32 [if b then 1 else 0]\<rparr>"

definition PutUint8 :: "Hasher \<Rightarrow> u8 \<Rightarrow> Hasher" where
  "PutUint8 h w = h\<lparr>buf := buf h @ pad32 (leBytes 1 w)\<rparr>"

definition PutUint16 :: "Hasher \<Rightarrow> 16 word \<Rightarrow> Hasher" where
  "PutUint16 h w = h\<lparr>buf := buf h @ pad32 (leBytes 2 w)\<rparr>"

definition PutUint32 :: "Hasher \<Rightarrow> 32 word \<Rightarrow> Hasher" where
  "PutUint32 h w = h\<lparr>buf := buf h @ pad32 (leBytes 4 w)\<rparr>"

definition PutUint64 :: "Hasher \<Rightarrow> u64 \<Rightarrow> Hasher" where
  "PutUint64 h w = h\<lparr>buf := buf h @ pad32 (leBytes 8 w)\<rparr>"

text \<open>Modelled from the spec: \<open>merkleize(fromPosition)\<close>, "combine the N chunks produced
  since entry into a single root", which replaces them.\<close>

definition Merkleize :: "Hasher \<Rightarrow> nat \<Rightarrow> Hasher" where
  "Merkleize h indx = h\<lparr>buf := take indx (buf h) @ merkleRoot h 0 (drop indx (buf h))\<rparr>"

text \<open>Modelled from the spec: \<open>merkleizeWithMixin(fromPosition, length, capacityChunks)\<close>,
  the root under the capacity, with "an encoded length ... as an extra chunk mixed
  into the final combination step".\<close>

definition MerkleizeWithMixin :: "Hasher \<Rightarrow> nat \<Rightarrow> u64 \<Rightarrow> u64 \<Rightarrow> Hasher" where
  "MerkleizeWithMixin h indx num limit =
     (let input = drop indx (pad32 (buf h));
          root = merkleRoot h (unat limit) input
      in h\<lparr>buf := take indx (pad32 (buf h)) @ doHash h root (pad32 (leBytes 8 num))\<rparr>)"

text \<open>Modelled from the spec: \<open>putBytes(buf)\<close> writes the "zero-padded packed-chunk
  Merkle root" of the bytes, "with no mixin".\<close>

definition PutBytes :: "Hasher \<Rightarrow> u8 list \<Rightarrow> Hasher" where
  "PutBytes h b = h\<lparr>buf := buf h @ merkleRoot h 0 (pad32 b)\<rparr>"

text \<open>Modelled from the spec: a bitlist is "a byte-packed bitstring" whose highest
  set bit of the last byte delimits it; its bits without the delimiter, and their
  number.\<close>

definition bitLen8 :: "u8 \<Rightarrow> nat" where
  "bitLen8 b = length (dropWhile Not (rev (map (bit b) [0..<8])))"

definition parseBitlist :: "u8 list \<Rightarrow> u8 list \<times> nat" where
  "parseBitlist bb =
     (if bb = [] then ([], 0)
      else let msb = bitLen8 (last bb) - 1;
               content = butlast bb @ [unset_bit msb (last bb)]
           in (rev (dropWhile (\<lambda>b. b = 0) (rev content)), 8 * (length bb - 1) + msb))"

text \<open>Modelled from the spec: \<open>putBitlist(bytes, maxBits)\<close> writes "the bitlist-specific
  padded-and-mixed root (combination of pure byte chunks plus a length-in-bits
  mixin)", with the bound \<open>maxBits\<close> in bits turned into chunks of 256 bits.\<close>

definition PutBitlist :: "Hasher \<Rightarrow> u8 list \<Rightarrow> u64 \<Rightarrow> Hasher" where
  "PutBitlist h bb maxSize =
     (let (content, bitCount) = parseBitlist bb;
          indx = Index h
      in MerkleizeWithMixin (AppendBytes32 h content) indx (of_nat bitCount)
           ((maxSize + 255) div 256))"

text \<open>Modelled from the spec: \<open>calculateLimit(maxElementCount, actualElementCount,
  elementByteSize)\<close> is "the number of 32-byte chunks needed to hold \<open>maxElementCount\<close>
  elements of \<open>elementByteSize\<close> bytes each", \<open>ceil(maxElementCount * elementByteSize / 32)\<close>.\<close>

definition calculateLimit :: "u64 \<Rightarrow> u64 \<Rightarrow> u64 \<Rightarrow> u64" where
  "calculateLimit maxElementCount actualElementCount elementByteSize =
     of_nat ((unat maxElementCount * unat elementByteSize + 31) div 32)"

subsection \<open>The receiver and its collaborators\<close>

text \<open>Modelled from the spec: a size hint and a max-size hint are per-dimension sizes.
  The code reads \<open>maxSizeHints[i].size\<close> as a \<open>uint64\<close>; size hints are only
  handed on to the compatibility check.\<close>

record sszSizeHint =
  ssize :: u64

record sszMaxSizeHint =
  hsize :: u64

text \<open>The verdict of \<open>getFastsszHashCompatibility\<close>, with the three fields that
  \<open>buildRootFromType\<close> reads.\<close>

record fastsszCompat =
  isHashRoot :: bool
  hasDynamicSpecSizes :: bool
  hasDynamicSpecMax :: bool

text \<open>
  The receiver \<open>d\<close>. Its two flags are fields of the Go struct. Its methods
  \<open>getFastsszHashCompatibility\<close>, \<open>getSszFieldSize\<close> (of whose results only the size
  hints and the error are used) and \<open>getSszMaxSizeTag\<close> are defined outside
  treeroot.go and are parameters here, each returning its error message or its
  result. \<open>fastsszHashRoot\<close> is the fourth parameter: for a type and a value, whether
  the type assertion \<open>sourceValue.Addr().Interface().(fastsszHashRoot)\<close> holds, and
  then what \<open>HashTreeRoot()\<close> returns (its error message or the root).
\<close>

record DynSsz =
  NoFastSsz :: bool
  Verbose :: bool
  getFastsszHashCompatibility ::
    "rtype \<Rightarrow> sszSizeHint list \<Rightarrow> sszMaxSizeHint list \<Rightarrow> string + fastsszCompat"
  getSszFieldSize :: "StructField \<Rightarrow> string + sszSizeHint list"
  getSszMaxSizeTag :: "StructField \<Rightarrow> string + sszMaxSizeHint list"
  fastsszHashRoot :: "rtype \<Rightarrow> rvalue \<Rightarrow> (string + u8 list) option"

text \<open>
  The errors the three functions return:
  \<^item> \<open>CompatibilityCheckFailed\<close>: "failed checking fastssz compatibility: ...";
  \<^item> \<open>PrecompiledHashFailed\<close>: "failed HashTreeRoot: ...";
  \<^item> \<open>UnsupportedType\<close>: "unknown type: ..." with the type;
  \<^item> \<open>UnsupportedNesting\<close>: "non-byte slice/array in slice: ..." with the item type's name;
  \<^item> \<open>FieldMetadata\<close>: the error of \<open>getSszFieldSize\<close> or \<open>getSszMaxSizeTag\<close>, returned as it is.
\<close>

datatype error =
    CompatibilityCheckFailed string
  | PrecompiledHashFailed string
  | UnsupportedType rtype
  | UnsupportedNesting string
  | FieldMetadata string

datatype result =
    Done Hasher
  | Failed error Hasher
  | Panicked

subsection \<open>buildRootFromType, buildRootFromStruct, buildRootFromSlice\<close>

text \<open>The dereference at the head of \<open>buildRootFromType\<close> and \<open>buildRootFromStruct\<close>,
  and of each field: \<open>if t.Kind() == reflect.Ptr { t = t.Elem(); v = v.Elem() }\<close>.\<close>

definition derefPtr :: "rtype \<Rightarrow> rvalue \<Rightarrow> (rtype \<times> rvalue) option" where
  "derefPtr t v =
     (if Kind t = Ptr then
        (case Elem t of None \<Rightarrow> None
         | Some t' \<Rightarrow> (case Elem_v v of None \<Rightarrow> None | Some v' \<Rightarrow> Some (t', v')))
      else Some (t, v))"

text \<open>Lines 28 to 32: the decision for the precompiled routine, with the exception
  for the type named \<open>Int\<close>.\<close>

definition useFastSsz :: "DynSsz \<Rightarrow> fastsszCompat \<Rightarrow> rtype \<Rightarrow> bool" where
  "useFastSsz d fastsszCompat sourceType =
     (let useFast = (\<not> NoFastSsz d \<and> isHashRoot fastsszCompat
                      \<and> \<not> hasDynamicSpecSizes fastsszCompat \<and> \<not> hasDynamicSpecMax fastsszCompat)
      in if \<not> useFast \<and> isHashRoot fastsszCompat \<and> \<not> hasDynamicSpecSizes fastsszCompat
            \<and> \<not> hasDynamicSpecMax fastsszCompat \<and> Name sourceType = ''Int''
         then True else useFast)"

text \<open>
  Lines 38 to 49. \<open>Addr()\<close> panics on the zero Value. The outcome is a panic
  (\<open>None\<close>), no use of the routine (\<open>Some None\<close>: the decision was against it, or
  the value does not have it and \<open>useFastSsz\<close> is set back to false), or what
  \<open>HashTreeRoot()\<close> returned.
\<close>

definition fastPath ::
  "DynSsz \<Rightarrow> fastsszCompat \<Rightarrow> rtype \<Rightarrow> rvalue \<Rightarrow> (string + u8 list) option option" where
  "fastPath d fastsszCompat sourceType sourceValue =
     (if useFastSsz d fastsszCompat sourceType then
        (if sourceValue = Zero then None else Some (fastsszHashRoot d sourceType sourceValue))
      else Some None)"

text \<open>The loop of the nested byte sequences (lines 175 to 194), from element \<open>i\<close> on.\<close>

function sliceByteItems ::
  "bool \<Rightarrow> rvalue \<Rightarrow> sszMaxSizeHint list \<Rightarrow> nat \<Rightarrow> nat \<Rightarrow> Hasher \<Rightarrow> result" where
  "sliceByteItems fieldIsPtr sourceValue maxSizeHints i sliceLen hh =
     (if i < sliceLen then
        (let sliceSubIndex = Index hh in
         case Index_v sourceValue i of None \<Rightarrow> Panicked
         | Some fieldValue \<Rightarrow>
         (case (if fieldIsPtr then Elem_v fieldValue else Some fieldValue) of None \<Rightarrow> Panicked
          | Some fieldValue \<Rightarrow>
          (case Bytes fieldValue of None \<Rightarrow> Panicked
           | Some fieldBytes \<Rightarrow>
             (let byteLen = (of_nat (length fieldBytes) :: u64) in
              sliceByteItems fieldIsPtr sourceValue maxSizeHints (Suc i) sliceLen
                (if length maxSizeHints > 1 then
                   MerkleizeWithMixin (AppendBytes32 hh fieldBytes) sliceSubIndex byteLen
                     ((hsize (maxSizeHints ! 1) + 31) div 32)
                 else PutBytes hh fieldBytes)))))
      else Done hh)"
  by pat_completeness auto
termination
  by (relation "measure (\<lambda>(fieldIsPtr, sourceValue, maxSizeHints, i, sliceLen, hh). sliceLen - i)") auto

declare sliceByteItems.simps [simp del]

text \<open>The loop of the unsigned 64-bit elements (lines 208 to 215), from element \<open>i\<close> on.\<close>

function sliceUint64s :: "bool \<Rightarrow> rvalue \<Rightarrow> nat \<Rightarrow> nat \<Rightarrow> Hasher \<Rightarrow> result" where
  "sliceUint64s fieldIsPtr sourceValue i sliceLen hh =
     (if i < sliceLen then
        (case Index_v sourceValue i of None \<Rightarrow> Panicked
         | Some fieldValue \<Rightarrow>
         (case (if fieldIsPtr then Elem_v fieldValue else Some fieldValue) of None \<Rightarrow> Panicked
          | Some fieldValue \<Rightarrow>
          (case Uint_v fieldValue of None \<Rightarrow> Panicked
           | Some w \<Rightarrow> sliceUint64s fieldIsPtr sourceValue (Suc i) sliceLen (AppendUint64 hh w))))
      else Done hh)"
  by pat_completeness auto
termination
  by (relation "measure (\<lambda>(fieldIsPtr, sourceValue, i, sliceLen, hh). sliceLen - i)") auto

declare sliceUint64s.simps [simp del]

text \<open>
  How the switch on the element kind in \<open>buildRootFromSlice\<close> ends: with a
  \<open>return\<close> of the function, or by falling to the finalization with the hasher and
  \<open>itemSize\<close>.
\<close>

datatype flow =
    Return result
  | Proceed Hasher nat

text \<open>The finalization (lines 219 to 229).\<close>

definition finalizeSlice ::
  "Hasher \<Rightarrow> nat \<Rightarrow> nat \<Rightarrow> nat \<Rightarrow> sszMaxSizeHint list \<Rightarrow> Hasher" where
  "finalizeSlice hh subIndex sliceLen itemSize maxSizeHints =
     (if length maxSizeHints > 0 then
        (let limit = (if itemSize > 0
                      then calculateLimit (hsize (maxSizeHints ! 0)) (of_nat sliceLen) (of_nat itemSize)
                      else hsize (maxSizeHints ! 0))
         in MerkleizeWithMixin hh subIndex (of_nat sliceLen) limit)
      else Merkleize hh subIndex)"

text \<open>
  The three functions, with the loop over the fields of a struct (\<open>structFields\<close>,
  lines 114 to 142, from field \<open>i\<close> on) and the loop over the struct elements of a
  sequence (\<open>sliceStructs\<close>, lines 161 to 171, from element \<open>i\<close> on).
\<close>

function
  buildRootFromType ::
    "DynSsz \<Rightarrow> rtype \<Rightarrow> rvalue \<Rightarrow> Hasher \<Rightarrow> sszSizeHint list \<Rightarrow> sszMaxSizeHint list \<Rightarrow> result"
and buildRootFromStruct :: "DynSsz \<Rightarrow> rtype \<Rightarrow> rvalue \<Rightarrow> Hasher \<Rightarrow> result"
and structFields :: "DynSsz \<Rightarrow> rtype \<Rightarrow> rvalue \<Rightarrow> nat \<Rightarrow> nat \<Rightarrow> Hasher \<Rightarrow> result"
and buildRootFromSlice ::
    "DynSsz \<Rightarrow> rtype \<Rightarrow> rvalue \<Rightarrow> Hasher \<Rightarrow> sszMaxSizeHint list \<Rightarrow> bool \<Rightarrow> result"
and sliceStructs :: "DynSsz \<Rightarrow> rtype \<Rightarrow> bool \<Rightarrow> rvalue \<Rightarrow> nat \<Rightarrow> nat \<Rightarrow> Hasher \<Rightarrow> result"
where
  "buildRootFromType d sourceType0 sourceValue0 hh sizeHints maxSizeHints =
     (case derefPtr sourceType0 sourceValue0 of None \<Rightarrow> Panicked
      | Some (sourceType, sourceValue) \<Rightarrow>
      (case getFastsszHashCompatibility d sourceType sizeHints maxSizeHints of
         Inl err \<Rightarrow> Failed (CompatibilityCheckFailed err) hh
       | Inr fastsszCompat \<Rightarrow>
         (case fastPath d fastsszCompat sourceType sourceValue of
            None \<Rightarrow> Panicked
          | Some (Some (Inl err)) \<Rightarrow> Failed (PrecompiledHashFailed err) hh
          | Some (Some (Inr hashBytes)) \<Rightarrow> Done (PutBytes hh hashBytes)
          | Some None \<Rightarrow>
            (if Contains (Name sourceType) ''Bitlist'' then
               (case Bytes sourceValue of None \<Rightarrow> Panicked
                | Some bytes \<Rightarrow>
                  (let maxSize = (if length maxSizeHints > 0 then hsize (maxSizeHints ! 0)
                                  else of_nat (length bytes * 8))
                   in Done (PutBitlist hh bytes maxSize)))
             else if Kind sourceType = Struct then
               buildRootFromStruct d sourceType sourceValue hh
             else if Kind sourceType = Array then
               buildRootFromSlice d sourceType sourceValue hh maxSizeHints True
             else if Kind sourceType = Slice then
               buildRootFromSlice d sourceType sourceValue hh maxSizeHints False
             else if Kind sourceType = Bool then
               (case Bool_v sourceValue of None \<Rightarrow> Panicked
                | Some b \<Rightarrow> Done (PutBool hh b))
             else if Kind sourceType = Uint8 then
               (case Uint_v sourceValue of None \<Rightarrow> Panicked
                | Some w \<Rightarrow> Done (PutUint8 hh (ucast w)))
             else if Kind sourceType = Uint16 then
               (case Uint_v sourceValue of None \<Rightarrow> Panicked
                | Some w \<Rightarrow> Done (PutUint16 hh (ucast w)))
             else if Kind sourceType = Uint32 then
               (case Uint_v sourceValue of None \<Rightarrow> Panicked
                | Some w \<Rightarrow> Done (PutUint32 hh (ucast w)))
             else if Kind sourceType = Uint64 then
               (case Uint_v sourceValue of None \<Rightarrow> Panicked
                | Some w \<Rightarrow> Done (PutUint64 hh w))
             else Failed (UnsupportedType sourceType) hh))))"
| "buildRootFromStruct d sourceType0 sourceValue0 hh =
     (let hashIndex = Index hh in
      case derefPtr sourceType0 sourceValue0 of None \<Rightarrow> Panicked
      | Some (sourceType, sourceValue) \<Rightarrow>
      (case NumField sourceType of None \<Rightarrow> Panicked
       | Some n \<Rightarrow>
         (case structFields d sourceType sourceValue 0 n hh of
            Done hh' \<Rightarrow> Done (Merkleize hh' hashIndex)
          | Failed err hh' \<Rightarrow> Failed err hh'
          | Panicked \<Rightarrow> Panicked)))"
| "structFields d sourceType sourceValue i n hh =
     (if i < n then
        (case Field_t sourceType i of None \<Rightarrow> Panicked
         | Some field \<Rightarrow>
         (case Field_v sourceValue i of None \<Rightarrow> Panicked
          | Some fieldValue0 \<Rightarrow>
          (case derefPtr (FType field) fieldValue0 of None \<Rightarrow> Panicked
           | Some (fieldType, fieldValue) \<Rightarrow>
           (case getSszFieldSize d field of Inl err \<Rightarrow> Failed (FieldMetadata err) hh
            | Inr sizeHints \<Rightarrow>
            (case getSszMaxSizeTag d field of Inl err \<Rightarrow> Failed (FieldMetadata err) hh
             | Inr maxSizeHints \<Rightarrow>
             (case buildRootFromType d fieldType fieldValue hh sizeHints maxSizeHints of
                Done hh' \<Rightarrow> structFields d sourceType sourceValue (Suc i) n hh'
              | Failed err hh' \<Rightarrow> Failed err hh'
              | Panicked \<Rightarrow> Panicked))))))
      else Done hh)"
| "buildRootFromSlice d sourceType sourceValue hh maxSizeHints isArray =
     (case Elem sourceType of None \<Rightarrow> Panicked
      | Some elemType \<Rightarrow>
      (let fieldIsPtr = (Kind elemType = Ptr) in
       case (if fieldIsPtr then Elem elemType else Some elemType) of None \<Rightarrow> Panicked
       | Some fieldType \<Rightarrow>
       (let subIndex = Index hh in
        case Len sourceValue of None \<Rightarrow> Panicked
        | Some sliceLen \<Rightarrow>
        (case
           (if Kind fieldType = Struct then
              (case sliceStructs d fieldType fieldIsPtr sourceValue 0 sliceLen hh of
                 Done hh' \<Rightarrow> Proceed hh' 0
               | Failed err hh' \<Rightarrow> Return (Failed err hh')
               | Panicked \<Rightarrow> Return Panicked)
            else if Kind fieldType = Array \<or> Kind fieldType = Slice then
              (case Elem fieldType of None \<Rightarrow> Return Panicked
               | Some itemType \<Rightarrow>
                 if itemType = byteType then
                   (case sliceByteItems fieldIsPtr sourceValue maxSizeHints 0 sliceLen hh of
                      Done hh' \<Rightarrow> Proceed hh' 0
                    | r \<Rightarrow> Return r)
                 else Return (Failed (UnsupportedNesting (Name itemType)) hh))
            else if Kind fieldType = Uint8 then
              (case Bytes sourceValue of None \<Rightarrow> Return Panicked
               | Some bytes \<Rightarrow>
                 if isArray then Return (Done (PutBytes hh bytes))
                 else Proceed (FillUpTo32 (Append hh bytes)) 1)
            else if Kind fieldType = Uint64 then
              (case sliceUint64s fieldIsPtr sourceValue 0 sliceLen hh of
                 Done hh' \<Rightarrow> Proceed hh' 8
               | r \<Rightarrow> Return r)
            else Proceed hh 0)
         of Return r \<Rightarrow> r
          | Proceed hh' itemSize \<Rightarrow>
              Done (finalizeSlice hh' subIndex sliceLen itemSize maxSizeHints)))))"
| "sliceStructs d fieldType fieldIsPtr sourceValue i sliceLen hh =
     (if i < sliceLen then
        (case Index_v sourceValue i of None \<Rightarrow> Panicked
         | Some fieldValue0 \<Rightarrow>
         (case (if fieldIsPtr then Elem_v fieldValue0 else Some fieldValue0) of None \<Rightarrow> Panicked
          | Some fieldValue \<Rightarrow>
          (case buildRootFromStruct d fieldType fieldValue hh of
             Done hh' \<Rightarrow> sliceStructs d fieldType fieldIsPtr sourceValue (Suc i) sliceLen hh'
           | Failed err hh' \<Rightarrow> Failed err hh'
           | Panicked \<Rightarrow> Panicked)))
      else Done hh)"
  by pat_completeness auto
termination
proof (relation "measures
    [\<lambda>x. case x of
        Inl (Inl (d, t, r)) \<Rightarrow> size t
      | Inl (Inr (d, t, r)) \<Rightarrow> size t
      | Inr (Inl (d, t, r)) \<Rightarrow> size t
      | Inr (Inr (Inl (d, t, r))) \<Rightarrow> size t
      | Inr (Inr (Inr (d, t, r))) \<Rightarrow> size t,
     \<lambda>x. case x of
        Inl (Inl r) \<Rightarrow> 3
      | Inl (Inr r) \<Rightarrow> 1
      | Inr (Inl r) \<Rightarrow> 0
      | Inr (Inr r) \<Rightarrow> (2::nat),
     \<lambda>x. case x of
        Inr (Inl (d, t, v, i, n, hh)) \<Rightarrow> n - i
      | Inr (Inr (Inr (d, t, p, v, i, n, hh))) \<Rightarrow> n - i
      | _ \<Rightarrow> 0]", goal_cases)
  case 1
  show ?case by simp
next
  case (2 d t0 v0 hh sh mh x2 x y)
  then have "size x \<le> size t0"
    by (cases t0) (auto simp: derefPtr_def split: option.splits if_splits)
  then show ?case by auto
next
  case (3 d t0 v0 hh sh mh x2 x y)
  then have "size x \<le> size t0"
    by (cases t0) (auto simp: derefPtr_def split: option.splits if_splits)
  then show ?case by auto
next
  case (4 d t0 v0 hh sh mh x2 x y)
  then have "size x \<le> size t0"
    by (cases t0) (auto simp: derefPtr_def split: option.splits if_splits)
  then show ?case by auto
next
  case (5 d t0 v0 hh i x2 x y)
  then have "size x \<le> size t0"
    by (cases t0) (auto simp: derefPtr_def split: option.splits if_splits)
  then show ?case by auto
next
  case (6 d t v i n hh f fv x2b x y)
  from \<open>Field_t t i = Some f\<close> have "size (FType f) < size t"
  proof (cases t)
    case (StructOf nm fs)
    with \<open>Field_t t i = Some f\<close> have "f \<in> set fs"
      by (auto split: if_splits)
    then have "size f \<le> size_list size fs"
      by (simp add: size_list_estimation')
    moreover have "size (FType f) < size f"
      by (cases f) simp
    ultimately show ?thesis using StructOf by simp
  qed simp_all
  moreover from 6 have "size x \<le> size (FType f)"
    by (cases "FType f") (auto simp: derefPtr_def split: option.splits if_splits)
  ultimately show ?case by auto
next
  case 7
  then show ?case by auto
next
  case (8 d t v hh mh isArray e p ft)
  then have "size e < size t"
    by (cases t) auto
  moreover from 8 have "size ft \<le> size e"
    by (cases e) (auto split: if_splits)
  ultimately show ?case by auto
next
  case 9
  then show ?case by auto
next
  case 10
  then show ?case by auto
qed

declare buildRootFromType.simps [simp del]
declare buildRootFromStruct.simps [simp del]
declare structFields.simps [simp del]
declare buildRootFromSlice.simps [simp del]
declare sliceStructs.simps [simp del]

subsection \<open>The generic branch on its own\<close>


subsection \<open>What a call does to the buffer\<close>

text \<open>\<open>extendsBuffer hh hh'\<close>: the buffer of \<open>hh'\<close> starts with the buffer of \<open>hh\<close>.
  \<open>appendsOneChunk hh hh'\<close>: it is the buffer of \<open>hh\<close> and 32 bytes more.\<close>

definition extendsBuffer :: "Hasher \<Rightarrow> Hasher \<Rightarrow> bool" where
  "extendsBuffer hh hh' = prefix (buf hh) (buf hh')"

definition appendsOneChunk :: "Hasher \<Rightarrow> Hasher \<Rightarrow> bool" where
  "appendsOneChunk hh hh' = (prefix (buf hh) (buf hh') \<and> Index hh' = Index hh + 32)"

subsection \<open>Example inputs\<close>

text \<open>
  A receiver whose compatibility check gives the same verdict for every type, whose
  values all have the same precompiled capability (\<open>None\<close>: they have none), and
  whose max-size tag is a string of digits, one dimension each. A hasher with an
  empty buffer and a toy pairwise hash. The struct of the spec's scenario,
  \<open>{A uint8, B []uint64 with max 4}\<close> with \<open>A = 5\<close> and \<open>B = [1, 2]\<close>.
\<close>

definition exampleDynSsz :: "bool \<Rightarrow> fastsszCompat \<Rightarrow> (string + u8 list) option \<Rightarrow> DynSsz" where
  "exampleDynSsz noFast verdict routine =
     \<lparr>NoFastSsz = noFast, Verbose = False,
      getFastsszHashCompatibility = (\<lambda>t sizeHints maxSizeHints. Inr verdict),
      getSszFieldSize = (\<lambda>field. Inr []),
      getSszMaxSizeTag = (\<lambda>field. Inr (map (\<lambda>c. \<lparr>hsize = of_nat (of_char c - 48)\<rparr>) (FTag field))),
      fastsszHashRoot = (\<lambda>t v. routine)\<rparr>"

definition verdictOf :: "bool \<Rightarrow> bool \<Rightarrow> bool \<Rightarrow> fastsszCompat" where
  "verdictOf a b c = \<lparr>isHashRoot = a, hasDynamicSpecSizes = b, hasDynamicSpecMax = c\<rparr>"
definition exampleHasher :: Hasher where
  "exampleHasher = \<lparr>buf = [], hash = (\<lambda>a b. map2 (\<lambda>x y. x + 2 * y + 1) a b)\<rparr>"

definition exampleStruct :: rtype where
  "exampleStruct =
     StructOf ''Example''
       [StructField ''A'' (Basic ''uint8'' Uint8) [],
        StructField ''B'' (SliceOf [] (Basic ''uint64'' Uint64)) ''4'']"

definition exampleStructValue :: rvalue where
  "exampleStructValue = StructV [UintV 5, SeqV [UintV 1, UintV 2]]"

lemmas ex_defs = exampleDynSsz_def verdictOf_def derefPtr_def fastPath_def useFastSsz_def

section \<open>Lemmas\<close>

subsection \<open>Unfolding the functions once\<close>

lemma generic_dispatch:
  assumes "derefPtr sourceType0 sourceValue0 = Some (sourceType, sourceValue)"
    and "getFastsszHashCompatibility d sourceType sizeHints maxSizeHints = Inr fastsszCompat"
    and "fastPath d fastsszCompat sourceType sourceValue = Some None"
  shows "buildRootFromType d sourceType0 sourceValue0 hh sizeHints maxSizeHints =
     (if Contains (Name sourceType) ''Bitlist'' then
        (case Bytes sourceValue of None \<Rightarrow> Panicked
         | Some bytes \<Rightarrow>
             Done (PutBitlist hh bytes
               (if length maxSizeHints > 0 then hsize (maxSizeHints ! 0)
                else of_nat (length bytes * 8))))
      else if Kind sourceType = Struct then buildRootFromStruct d sourceType sourceValue hh
      else if Kind sourceType = Array then
        buildRootFromSlice d sourceType sourceValue hh maxSizeHints True
      else if Kind sourceType = Slice then
        buildRootFromSlice d sourceType sourceValue hh maxSizeHints False
      else if Kind sourceType = Bool then
        (case Bool_v sourceValue of None \<Rightarrow> Panicked | Some b \<Rightarrow> Done (PutBool hh b))
      else if Kind sourceType = Uint8 then
        (case Uint_v sourceValue of None \<Rightarrow> Panicked | Some w \<Rightarrow> Done (PutUint8 hh (ucast w)))
      else if Kind sourceType = Uint16 then
        (case Uint_v sourceValue of None \<Rightarrow> Panicked | Some w \<Rightarrow> Done (PutUint16 hh (ucast w)))
      else if Kind sourceType = Uint32 then
        (case Uint_v sourceValue of None \<Rightarrow> Panicked | Some w \<Rightarrow> Done (PutUint32 hh (ucast w)))
      else if Kind sourceType = Uint64 then
        (case Uint_v sourceValue of None \<Rightarrow> Panicked | Some w \<Rightarrow> Done (PutUint64 hh w))
      else Failed (UnsupportedType sourceType) hh)"
  by (simp add: buildRootFromType.simps [of d sourceType0] assms Let_def split: option.splits)
lemma slice_struct_elements:
  assumes "Elem sourceType = Some elemType"
    and "(if Kind elemType = Ptr then Elem elemType else Some elemType) = Some fieldType"
    and "Len sourceValue = Some sliceLen"
    and "Kind fieldType = Struct"
  shows "buildRootFromSlice d sourceType sourceValue hh maxSizeHints isArray =
           (case sliceStructs d fieldType (Kind elemType = Ptr) sourceValue 0 sliceLen hh of
              Done hh' \<Rightarrow> Done (finalizeSlice hh' (Index hh) sliceLen 0 maxSizeHints)
            | Failed err hh' \<Rightarrow> Failed err hh'
            | Panicked \<Rightarrow> Panicked)"
  using assms
  by (simp add: buildRootFromSlice.simps [of d sourceType] Let_def split: result.splits)

lemma slice_nested_elements:
  assumes "Elem sourceType = Some elemType"
    and "(if Kind elemType = Ptr then Elem elemType else Some elemType) = Some fieldType"
    and "Len sourceValue = Some sliceLen"
    and "Kind fieldType = Array \<or> Kind fieldType = Slice"
  shows "buildRootFromSlice d sourceType sourceValue hh maxSizeHints isArray =
           (case Elem fieldType of
              None \<Rightarrow> Panicked
            | Some itemType \<Rightarrow>
                if itemType = byteType then
                  (case sliceByteItems (Kind elemType = Ptr) sourceValue maxSizeHints 0 sliceLen hh of
                     Done hh' \<Rightarrow> Done (finalizeSlice hh' (Index hh) sliceLen 0 maxSizeHints)
                   | Failed err hh' \<Rightarrow> Failed err hh'
                   | Panicked \<Rightarrow> Panicked)
                else Failed (UnsupportedNesting (Name itemType)) hh)"
  using assms
  by (auto simp: buildRootFromSlice.simps [of d sourceType] Let_def
      split: result.splits option.splits)

lemma slice_uint8_elements:
  assumes "Elem sourceType = Some elemType"
    and "(if Kind elemType = Ptr then Elem elemType else Some elemType) = Some fieldType"
    and "Len sourceValue = Some sliceLen"
    and "Kind fieldType = Uint8"
  shows "buildRootFromSlice d sourceType sourceValue hh maxSizeHints isArray =
           (case Bytes sourceValue of
              None \<Rightarrow> Panicked
            | Some bytes \<Rightarrow>
                if isArray then Done (PutBytes hh bytes)
                else Done (finalizeSlice (FillUpTo32 (Append hh bytes)) (Index hh) sliceLen 1
                             maxSizeHints))"
  using assms
  by (simp add: buildRootFromSlice.simps [of d sourceType] Let_def split: option.splits)

lemma slice_uint64_elements:
  assumes "Elem sourceType = Some elemType"
    and "(if Kind elemType = Ptr then Elem elemType else Some elemType) = Some fieldType"
    and "Len sourceValue = Some sliceLen"
    and "Kind fieldType = Uint64"
  shows "buildRootFromSlice d sourceType sourceValue hh maxSizeHints isArray =
           (case sliceUint64s (Kind elemType = Ptr) sourceValue 0 sliceLen hh of
              Done hh' \<Rightarrow> Done (finalizeSlice hh' (Index hh) sliceLen 8 maxSizeHints)
            | Failed err hh' \<Rightarrow> Failed err hh'
            | Panicked \<Rightarrow> Panicked)"
  using assms
  by (simp add: buildRootFromSlice.simps [of d sourceType] Let_def split: result.splits)

lemma slice_other_elements:
  assumes "Elem sourceType = Some elemType"
    and "(if Kind elemType = Ptr then Elem elemType else Some elemType) = Some fieldType"
    and "Len sourceValue = Some sliceLen"
    and "Kind fieldType \<notin> {Struct, Array, Slice, Uint8, Uint64}"
  shows "buildRootFromSlice d sourceType sourceValue hh maxSizeHints isArray =
           Done (finalizeSlice hh (Index hh) sliceLen 0 maxSizeHints)"
  using assms
  by (simp add: buildRootFromSlice.simps [of d sourceType] Let_def)

subsection \<open>Lengths and prefixes in the buffer\<close>

lemma length_chunk32 [simp]: "length (chunk32 bs) = 32"
  by (simp add: chunk32_def)

lemma length_doHash [simp]: "length (doHash h a b) = 32"
  by (simp add: doHash_def)

lemma length_merkleTree [simp]: "length (merkleTree h depth bs) = 32"
  by (cases depth) simp_all

lemma length_merkleRoot [simp]: "length (merkleRoot h limit input) = 32"
  by (simp add: merkleRoot_def)

lemma length_leBytes [simp]: "length (leBytes n w) = n"
  by (simp add: leBytes_def)

lemma length_pad32_short: "0 < length bs \<Longrightarrow> length bs \<le> 32 \<Longrightarrow> length (pad32 bs) = 32"
  by (cases "length bs = 32") (simp_all add: pad32_def)

lemma prefix_pad32: "prefix bs (pad32 bs)"
  by (simp add: pad32_def)

lemma extendsBuffer_refl [simp]: "extendsBuffer hh hh"
  by (simp add: extendsBuffer_def)

lemma extendsBuffer_trans: "extendsBuffer a b \<Longrightarrow> extendsBuffer b c \<Longrightarrow> extendsBuffer a c"
  by (auto simp: extendsBuffer_def)

lemma appendsOneChunk_extends: "appendsOneChunk a b \<Longrightarrow> extendsBuffer a b"
  by (simp add: appendsOneChunk_def extendsBuffer_def)

lemma put_scalar_appends:
  "appendsOneChunk hh (PutBool hh b)"
  "appendsOneChunk hh (PutUint8 hh w8)"
  "appendsOneChunk hh (PutUint16 hh w16)"
  "appendsOneChunk hh (PutUint32 hh w32)"
  "appendsOneChunk hh (PutUint64 hh w64)"
  by (simp_all add: appendsOneChunk_def Index_def PutBool_def PutUint8_def PutUint16_def
      PutUint32_def PutUint64_def length_pad32_short)

lemma PutBytes_appends: "appendsOneChunk hh (PutBytes hh b)"
  by (simp add: appendsOneChunk_def Index_def PutBytes_def)

lemma Merkleize_appends:
  assumes "extendsBuffer hh h1"
  shows "appendsOneChunk hh (Merkleize h1 (Index hh))"
proof -
  from assms obtain zs where "buf h1 = buf hh @ zs"
    by (auto simp: extendsBuffer_def prefix_def)
  then show ?thesis
    by (simp add: appendsOneChunk_def Index_def Merkleize_def)
qed

lemma MerkleizeWithMixin_appends:
  assumes "extendsBuffer hh h1"
  shows "appendsOneChunk hh (MerkleizeWithMixin h1 (Index hh) num limit)"
proof -
  from assms obtain zs where "buf h1 = buf hh @ zs"
    by (auto simp: extendsBuffer_def prefix_def)
  then have "pad32 (buf h1) = buf hh @ (zs @ replicate ((32 - length (buf h1) mod 32) mod 32) 0)"
    by (simp add: pad32_def)
  then show ?thesis
    by (simp add: appendsOneChunk_def Index_def MerkleizeWithMixin_def Let_def)
qed

lemma append_extends:
  "extendsBuffer hh (Append hh bs)"
  "extendsBuffer hh (AppendBytes32 hh bs)"
  "extendsBuffer hh (AppendUint64 hh w)"
  "extendsBuffer hh (FillUpTo32 hh)"
  by (simp_all add: extendsBuffer_def Append_def AppendBytes32_def AppendUint64_def FillUpTo32_def
      prefix_pad32)

lemma PutBitlist_appends: "appendsOneChunk hh (PutBitlist hh bb maxSize)"
  by (simp add: PutBitlist_def Let_def MerkleizeWithMixin_appends append_extends
      split: prod.splits)

lemma finalizeSlice_appends:
  "extendsBuffer hh h1 \<Longrightarrow> appendsOneChunk hh (finalizeSlice h1 (Index hh) sliceLen itemSize maxSizeHints)"
  by (simp add: finalizeSlice_def Let_def Merkleize_appends MerkleizeWithMixin_appends)

lemma sliceByteItems_extends:
  "sliceByteItems fieldIsPtr sourceValue maxSizeHints i sliceLen hh = Done hh'
     \<Longrightarrow> extendsBuffer hh hh'"
proof (induction fieldIsPtr sourceValue maxSizeHints i sliceLen hh rule: sliceByteItems.induct)
  case (1 fieldIsPtr sourceValue maxSizeHints i sliceLen hh)
  show ?case
  proof (cases "i < sliceLen")
    case False
    with "1.prems" show ?thesis by (simp add: sliceByteItems.simps [of _ _ _ i])
  next
    case True
    from "1.prems" True obtain fv0 fv fieldBytes where
      a: "Index_v sourceValue i = Some fv0"
      and b: "(if fieldIsPtr then Elem_v fv0 else Some fv0) = Some fv"
      and c: "Bytes fv = Some fieldBytes"
      and rest: "sliceByteItems fieldIsPtr sourceValue maxSizeHints (Suc i) sliceLen
                  (if length maxSizeHints > 1 then
                     MerkleizeWithMixin (AppendBytes32 hh fieldBytes) (Index hh)
                       (of_nat (length fieldBytes)) ((hsize (maxSizeHints ! 1) + 31) div 32)
                   else PutBytes hh fieldBytes) = Done hh'"
      by (simp add: sliceByteItems.simps [of _ _ _ i] Let_def split: option.splits)
    let ?h1 = "if length maxSizeHints > 1 then
                     MerkleizeWithMixin (AppendBytes32 hh fieldBytes) (Index hh)
                       (of_nat (length fieldBytes)) ((hsize (maxSizeHints ! 1) + 31) div 32)
                   else PutBytes hh fieldBytes"
    have "extendsBuffer hh ?h1"
      by (simp add: appendsOneChunk_extends PutBytes_appends MerkleizeWithMixin_appends
          append_extends)
    moreover have "extendsBuffer ?h1 hh'"
      using "1.IH" [OF True refl a b c refl] rest by simp
    ultimately show ?thesis by (rule extendsBuffer_trans)
  qed
qed

lemma sliceUint64s_extends:
  "sliceUint64s fieldIsPtr sourceValue i sliceLen hh = Done hh' \<Longrightarrow> extendsBuffer hh hh'"
proof (induction fieldIsPtr sourceValue i sliceLen hh rule: sliceUint64s.induct)
  case (1 fieldIsPtr sourceValue i sliceLen hh)
  show ?case
  proof (cases "i < sliceLen")
    case False
    with "1.prems" show ?thesis by (simp add: sliceUint64s.simps [of _ _ i])
  next
    case True
    from "1.prems" True obtain fv0 fv w where
      a: "Index_v sourceValue i = Some fv0"
      and b: "(if fieldIsPtr then Elem_v fv0 else Some fv0) = Some fv"
      and c: "Uint_v fv = Some w"
      and rest: "sliceUint64s fieldIsPtr sourceValue (Suc i) sliceLen (AppendUint64 hh w) = Done hh'"
      by (simp add: sliceUint64s.simps [of _ _ i] split: option.splits)
    have "extendsBuffer (AppendUint64 hh w) hh'"
      using "1.IH" [OF True a b c] rest by simp
    with append_extends(3) [of hh w] show ?thesis by (rule extendsBuffer_trans)
  qed
qed
lemma traversal_extends:
  "(\<forall>hh'. buildRootFromType d t0 v0 hh sh mh = Done hh' \<longrightarrow> appendsOneChunk hh hh')"
  "(\<forall>hh'. buildRootFromStruct d t1 v1 hh1 = Done hh' \<longrightarrow> appendsOneChunk hh1 hh')"
  "(\<forall>hh'. structFields d t2 v2 i2 n2 hh2 = Done hh' \<longrightarrow> extendsBuffer hh2 hh')"
  "(\<forall>hh'. buildRootFromSlice d t3 v3 hh3 mh3 a3 = Done hh' \<longrightarrow> appendsOneChunk hh3 hh')"
  "(\<forall>hh'. sliceStructs d t4 p4 v4 i4 n4 hh4 = Done hh' \<longrightarrow> extendsBuffer hh4 hh')"
proof (induction d t0 v0 hh sh mh and d t1 v1 hh1 and d t2 v2 i2 n2 hh2
    and d t3 v3 hh3 mh3 a3 and d t4 p4 v4 i4 n4 hh4
    rule: buildRootFromType_buildRootFromStruct_structFields_buildRootFromSlice_sliceStructs.induct)
  case (1 d sourceType0 sourceValue0 hh sizeHints maxSizeHints)
  show ?case
  proof (intro allI impI)
    fix hh'
    assume res: "buildRootFromType d sourceType0 sourceValue0 hh sizeHints maxSizeHints = Done hh'"
    from res obtain sourceType sourceValue where
      dr: "derefPtr sourceType0 sourceValue0 = Some (sourceType, sourceValue)"
      by (cases "derefPtr sourceType0 sourceValue0")
         (auto simp: buildRootFromType.simps [of d sourceType0])
    from res dr obtain fastsszCompat where
      co: "getFastsszHashCompatibility d sourceType sizeHints maxSizeHints = Inr fastsszCompat"
      by (cases "getFastsszHashCompatibility d sourceType sizeHints maxSizeHints")
         (auto simp: buildRootFromType.simps [of d sourceType0])
    show "appendsOneChunk hh hh'"
    proof (cases "fastPath d fastsszCompat sourceType sourceValue")
      case None
      with res dr co show ?thesis
        by (simp add: buildRootFromType.simps [of d sourceType0])
    next
      case (Some routine)
      show ?thesis
      proof (cases routine)
        case (Some r)
        with res dr co \<open>fastPath d fastsszCompat sourceType sourceValue = Some routine\<close>
        show ?thesis
          by (cases r) (auto simp: buildRootFromType.simps [of d sourceType0] PutBytes_appends)
      next
        case None
        with Some have fp: "fastPath d fastsszCompat sourceType sourceValue = Some None"
          by simp
        note g = generic_dispatch [OF dr co fp, of hh]
        note ih = "1.IH" [OF dr refl co fp refl]
        show ?thesis
        proof (cases "Contains (Name sourceType) ''Bitlist''")
          case True
          with res g show ?thesis
            by (auto simp: PutBitlist_appends split: option.splits)
        next
          case nb: False
          show ?thesis
          proof (cases "Kind sourceType = Struct")
            case True
            with res g nb ih(1) show ?thesis by simp
          next
            case ns: False
            show ?thesis
            proof (cases "Kind sourceType = Array")
              case True
              with res g nb ns ih(2) show ?thesis by simp
            next
              case na: False
              show ?thesis
              proof (cases "Kind sourceType = Slice")
                case True
                with res g nb ns na ih(3) show ?thesis by simp
              next
                case False
                with res g nb ns na show ?thesis
                  by (auto simp: put_scalar_appends split: option.splits if_splits)
              qed
            qed
          qed
        qed
      qed
    qed
  qed
next
  case (2 d sourceType0 sourceValue0 hh)
  show ?case
  proof (intro allI impI)
    fix hh'
    assume res: "buildRootFromStruct d sourceType0 sourceValue0 hh = Done hh'"
    from res obtain sourceType sourceValue where
      dr: "derefPtr sourceType0 sourceValue0 = Some (sourceType, sourceValue)"
      by (cases "derefPtr sourceType0 sourceValue0")
         (auto simp: buildRootFromStruct.simps [of d sourceType0])
    from res dr obtain n where nf: "NumField sourceType = Some n"
      by (cases "NumField sourceType") (auto simp: buildRootFromStruct.simps [of d sourceType0])
    from res dr nf obtain h1 where
      lp: "structFields d sourceType sourceValue 0 n hh = Done h1"
      and fin: "hh' = Merkleize h1 (Index hh)"
      by (cases "structFields d sourceType sourceValue 0 n hh")
         (auto simp: buildRootFromStruct.simps [of d sourceType0] Let_def)
    from "2.IH" [OF refl dr refl nf] lp have "extendsBuffer hh h1" by simp
    then show "appendsOneChunk hh hh'"
      unfolding fin by (rule Merkleize_appends)
  qed
next
  case (3 d sourceType sourceValue i n hh)
  show ?case
  proof (intro allI impI)
    fix hh'
    assume res: "structFields d sourceType sourceValue i n hh = Done hh'"
    show "extendsBuffer hh hh'"
    proof (cases "i < n")
      case False
      with res show ?thesis by (simp add: structFields.simps [of d sourceType sourceValue i])
    next
      case True
      from res True obtain field fieldValue0 fieldType fieldValue sizeHints maxSizeHints h1 where
        a: "Field_t sourceType i = Some field"
        and b: "Field_v sourceValue i = Some fieldValue0"
        and c: "derefPtr (FType field) fieldValue0 = Some (fieldType, fieldValue)"
        and e: "getSszFieldSize d field = Inr sizeHints"
        and f: "getSszMaxSizeTag d field = Inr maxSizeHints"
        and g: "buildRootFromType d fieldType fieldValue hh sizeHints maxSizeHints = Done h1"
        and rest: "structFields d sourceType sourceValue (Suc i) n h1 = Done hh'"
        by (simp add: structFields.simps [of d sourceType sourceValue i]
            split: option.splits sum.splits result.splits prod.splits)
      from "3.IH"(1) [OF True a b c refl e f] g have "extendsBuffer hh h1"
        by (simp add: appendsOneChunk_extends)
      moreover from "3.IH"(2) [OF True a b c refl e f g] rest have "extendsBuffer h1 hh'"
        by simp
      ultimately show ?thesis by (rule extendsBuffer_trans)
    qed
  qed
next
  case (4 d sourceType sourceValue hh maxSizeHints isArray)
  show ?case
  proof (intro allI impI)
    fix hh'
    assume res: "buildRootFromSlice d sourceType sourceValue hh maxSizeHints isArray = Done hh'"
    from res obtain elemType where el: "Elem sourceType = Some elemType"
      by (cases "Elem sourceType") (auto simp: buildRootFromSlice.simps [of d sourceType])
    from res el obtain fieldType where
      ft: "(if Kind elemType = Ptr then Elem elemType else Some elemType) = Some fieldType"
      by (cases "if Kind elemType = Ptr then Elem elemType else Some elemType")
         (auto simp: buildRootFromSlice.simps [of d sourceType] Let_def)
    from res el ft obtain sliceLen where ln: "Len sourceValue = Some sliceLen"
      by (cases "Len sourceValue")
         (auto simp: buildRootFromSlice.simps [of d sourceType] Let_def)
    note ih = "4.IH" [OF el refl ft refl ln]
    consider (struct) "Kind fieldType = Struct"
      | (nested) "Kind fieldType = Array \<or> Kind fieldType = Slice"
      | (uint8) "Kind fieldType = Uint8"
      | (uint64) "Kind fieldType = Uint64"
      | (other) "Kind fieldType \<notin> {Struct, Array, Slice, Uint8, Uint64}"
      by auto
    then show "appendsOneChunk hh hh'"
    proof cases
      case struct
      from res obtain h1 where
        lp: "sliceStructs d fieldType (Kind elemType = Ptr) sourceValue 0 sliceLen hh = Done h1"
        and fin: "hh' = finalizeSlice h1 (Index hh) sliceLen 0 maxSizeHints"
        unfolding slice_struct_elements [OF el ft ln struct]
        by (auto split: result.splits)
      from ih [OF struct] lp have "extendsBuffer hh h1" by simp
      then show ?thesis unfolding fin by (rule finalizeSlice_appends)
    next
      case nested
      from res obtain h1 where
        lp: "sliceByteItems (Kind elemType = Ptr) sourceValue maxSizeHints 0 sliceLen hh = Done h1"
        and fin: "hh' = finalizeSlice h1 (Index hh) sliceLen 0 maxSizeHints"
        unfolding slice_nested_elements [OF el ft ln nested]
        by (auto split: result.splits if_splits option.splits)
      from lp have "extendsBuffer hh h1" by (rule sliceByteItems_extends)
      then show ?thesis unfolding fin by (rule finalizeSlice_appends)
    next
      case uint8
      from res obtain bytes where
        fin: "hh' = (if isArray then PutBytes hh bytes
                     else finalizeSlice (FillUpTo32 (Append hh bytes)) (Index hh) sliceLen 1
                            maxSizeHints)"
        unfolding slice_uint8_elements [OF el ft ln uint8]
        by (auto split: option.splits if_splits)
      have "extendsBuffer hh (FillUpTo32 (Append hh bytes))"
        by (rule extendsBuffer_trans [OF append_extends(1) append_extends(4)])
      then show ?thesis
        unfolding fin by (simp add: PutBytes_appends finalizeSlice_appends)
    next
      case uint64
      from res obtain h1 where
        lp: "sliceUint64s (Kind elemType = Ptr) sourceValue 0 sliceLen hh = Done h1"
        and fin: "hh' = finalizeSlice h1 (Index hh) sliceLen 8 maxSizeHints"
        unfolding slice_uint64_elements [OF el ft ln uint64]
        by (auto split: result.splits)
      from lp have "extendsBuffer hh h1" by (rule sliceUint64s_extends)
      then show ?thesis unfolding fin by (rule finalizeSlice_appends)
    next
      case other
      from res have fin: "hh' = finalizeSlice hh (Index hh) sliceLen 0 maxSizeHints"
        unfolding slice_other_elements [OF el ft ln other] by simp
      show ?thesis unfolding fin by (rule finalizeSlice_appends) simp
    qed
  qed
next
  case (5 d fieldType fieldIsPtr sourceValue i sliceLen hh)
  show ?case
  proof (intro allI impI)
    fix hh'
    assume res: "sliceStructs d fieldType fieldIsPtr sourceValue i sliceLen hh = Done hh'"
    show "extendsBuffer hh hh'"
    proof (cases "i < sliceLen")
      case False
      with res show ?thesis
        by (simp add: sliceStructs.simps [of d fieldType fieldIsPtr sourceValue i])
    next
      case True
      from res True obtain fv0 fv h1 where
        a: "Index_v sourceValue i = Some fv0"
        and b: "(if fieldIsPtr then Elem_v fv0 else Some fv0) = Some fv"
        and g: "buildRootFromStruct d fieldType fv hh = Done h1"
        and rest: "sliceStructs d fieldType fieldIsPtr sourceValue (Suc i) sliceLen h1 = Done hh'"
        by (simp add: sliceStructs.simps [of d fieldType fieldIsPtr sourceValue i]
            split: option.splits result.splits)
      from "5.IH"(1) [OF True a b] g have "extendsBuffer hh h1"
        by (simp add: appendsOneChunk_extends)
      moreover from "5.IH"(2) [OF True a b g] rest have "extendsBuffer h1 hh'"
        by simp
      ultimately show ?thesis by (rule extendsBuffer_trans)
    qed
  qed
qed
lemma example_struct_root:
  "buildRootFromType (exampleDynSsz True (verdictOf False False False) None)
     exampleStruct exampleStructValue exampleHasher [] []
   = Done (Merkleize
       (MerkleizeWithMixin
          (AppendUint64 (AppendUint64 (PutUint8 exampleHasher 5) 1) 2)
          (Index (PutUint8 exampleHasher 5)) 2 1)
       (Index exampleHasher))"
  by (simp add: buildRootFromType.simps buildRootFromStruct.simps structFields.simps
      buildRootFromSlice.simps sliceUint64s.simps finalizeSlice_def calculateLimit_def
      ex_defs exampleStruct_def exampleStructValue_def Let_def)

section \<open>The claims\<close>

subsection \<open>C1: the fast path and the forced generic path\<close>




subsection \<open>C2: one chunk per successful call\<close>

text \<open>
  C2: every call of \<open>buildRootFromType\<close>, \<open>buildRootFromStruct\<close> or
  \<open>buildRootFromSlice\<close> that returns without error leaves the buffer it found with
  exactly one chunk of 32 bytes after it: the index is the index on entry plus 32,
  and the bytes before it are unchanged. The buffer primitives are those modelled
  above from the spec.
\<close>

theorem successful_call_appends_one_chunk:
  "(buildRootFromType d sourceType sourceValue hh sizeHints maxSizeHints = Done hh'
      \<longrightarrow> appendsOneChunk hh hh')
   \<and> (buildRootFromStruct d sourceType sourceValue hh = Done hh'
      \<longrightarrow> appendsOneChunk hh hh')
   \<and> (buildRootFromSlice d sourceType sourceValue hh maxSizeHints isArray = Done hh'
      \<longrightarrow> appendsOneChunk hh hh')"
  using traversal_extends(1) [of d sourceType sourceValue hh sizeHints maxSizeHints]
    traversal_extends(2) [of d sourceType sourceValue hh]
    traversal_extends(4) [of d sourceType sourceValue hh maxSizeHints isArray]
  by blast
theorem successful_call_witness:
  "buildRootFromType (exampleDynSsz True (verdictOf False False False) None)
     exampleStruct exampleStructValue exampleHasher [] []
   = Done (Merkleize
       (MerkleizeWithMixin
          (AppendUint64 (AppendUint64 (PutUint8 exampleHasher 5) 1) 2)
          (Index (PutUint8 exampleHasher 5)) 2 1)
       (Index exampleHasher))
   \<and> appendsOneChunk exampleHasher
       (Merkleize
         (MerkleizeWithMixin
            (AppendUint64 (AppendUint64 (PutUint8 exampleHasher 5) 1) 2)
            (Index (PutUint8 exampleHasher 5)) 2 1)
         (Index exampleHasher))"
  using successful_call_appends_one_chunk
    [of "exampleDynSsz True (verdictOf False False False) None"
        exampleStruct exampleStructValue exampleHasher "[]" "[]"
        "Merkleize
         (MerkleizeWithMixin
            (AppendUint64 (AppendUint64 (PutUint8 exampleHasher 5) 1) 2)
            (Index (PutUint8 exampleHasher 5)) 2 1)
         (Index exampleHasher)"]
    example_struct_root
  by simp

subsection \<open>C3: the type named Int\<close>

text \<open>
  C3 says that for the type named \<open>Int\<close> the precompiled routine is used whatever the
  switch and the verdict are. The code keeps the verdict: for \<open>uint256.Int\<close>, an
  array of four \<open>uint64\<close>, with a verdict that reports an overridden size, the
  decision is against the routine and the array is hashed by the generic path.
\<close>

theorem int_hack_counterexample:
  "\<not> useFastSsz (exampleDynSsz False (verdictOf True True False) (Some (Inr (replicate 32 1))))
       (verdictOf True True False) (ArrayOf ''Int'' 4 (Basic ''uint64'' Uint64))
   \<and> buildRootFromType (exampleDynSsz False (verdictOf True True False) (Some (Inr (replicate 32 1))))
       (ArrayOf ''Int'' 4 (Basic ''uint64'' Uint64)) (SeqV [UintV 1, UintV 0, UintV 0, UintV 0])
       exampleHasher [] []
     = Done (Merkleize
         (AppendUint64 (AppendUint64 (AppendUint64 (AppendUint64 exampleHasher 1) 0) 0) 0)
         (Index exampleHasher))"
  by (simp add: buildRootFromType.simps buildRootFromSlice.simps sliceUint64s.simps
      finalizeSlice_def ex_defs)

text \<open>
  C3 as amended: for a type named \<open>Int\<close>, the decision \<open>useFastSsz\<close> is the verdict
  alone (routine present, no overridden size, no overridden maximum), whatever the
  switch \<open>NoFastSsz\<close> is.
\<close>

theorem int_hack_needs_verdict:
  assumes "Name sourceType = ''Int''"
  shows "useFastSsz d fastsszCompat sourceType
         = (isHashRoot fastsszCompat \<and> \<not> hasDynamicSpecSizes fastsszCompat
            \<and> \<not> hasDynamicSpecMax fastsszCompat)"
  using assms by (auto simp: useFastSsz_def Let_def)
theorem int_hack_witness:
  "Name (ArrayOf ''Int'' 4 (Basic ''uint64'' Uint64)) = ''Int''
   \<and> useFastSsz (exampleDynSsz True (verdictOf True False False) None)
        (verdictOf True False False) (ArrayOf ''Int'' 4 (Basic ''uint64'' Uint64))"
  using int_hack_needs_verdict
    [of "ArrayOf ''Int'' 4 (Basic ''uint64'' Uint64)"
        "exampleDynSsz True (verdictOf True False False) None" "verdictOf True False False"]
  by (simp add: verdictOf_def)

subsection \<open>C4: pointers\<close>



subsection \<open>C5: the finalization of a sequence\<close>




subsection \<open>C6: fixed arrays of bytes\<close>

text \<open>
  C6: for a fixed array of \<open>uint8\<close> elements, \<open>buildRootFromSlice\<close> writes the bytes
  with \<open>PutBytes\<close> and returns at once, with no \<open>Merkleize\<close> and no mixin after it:
  the chunk written is the Merkle root of the zero-padded packed bytes, and the
  max-size hints do not change the result.
\<close>

theorem fixed_byte_array_root:
  assumes "Kind elemType = Uint8"
  shows "buildRootFromSlice d (ArrayOf name L elemType) (BytesV bytes) hh maxSizeHints True
           = Done (PutBytes hh bytes)
         \<and> buf (PutBytes hh bytes) = buf hh @ merkleRoot hh 0 (pad32 bytes)
         \<and> buildRootFromSlice d (ArrayOf name L elemType) (BytesV bytes) hh maxSizeHints' True
           = buildRootFromSlice d (ArrayOf name L elemType) (BytesV bytes) hh maxSizeHints True"
  using assms by (simp add: buildRootFromSlice.simps PutBytes_def)

theorem fixed_byte_array_root_witness:
  "Kind byteType = Uint8
   \<and> buildRootFromSlice (exampleDynSsz True (verdictOf False False False) None)
       (ArrayOf [] 4 byteType) (BytesV [1, 2, 3, 4]) exampleHasher [] True
     = Done (PutBytes exampleHasher [1, 2, 3, 4])
   \<and> buildRootFromSlice (exampleDynSsz True (verdictOf False False False) None)
       (ArrayOf [] 4 byteType) (BytesV [1, 2, 3, 4]) exampleHasher [\<lparr>hsize = 64\<rparr>] True
     = buildRootFromSlice (exampleDynSsz True (verdictOf False False False) None)
       (ArrayOf [] 4 byteType) (BytesV [1, 2, 3, 4]) exampleHasher [] True"
  using fixed_byte_array_root
    [of byteType "exampleDynSsz True (verdictOf False False False) None" "[]" 4
        "[1, 2, 3, 4]" exampleHasher "[]" "[\<lparr>hsize = 64\<rparr>]"]
  by (simp add: byteType_def)

subsection \<open>C7: sequences of byte sequences\<close>

text \<open>
  C7 says that the nested case fails exactly when the innermost kind is not
  \<open>uint8\<close>, and that the capacity of an inner mixin is \<open>ceil(maxSizeHints[1] / 32)\<close>.
  The code compares the innermost type with \<open>byteType\<close> itself, so a named type of
  kind \<open>uint8\<close> is refused too; and it computes the capacity in \<open>uint64\<close> as
  \<open>(size + 31) / 32\<close>, which wraps for the largest sizes: for \<open>2^64 - 1\<close> it is 0.
\<close>

theorem nested_byte_sequences_counterexample:
  "Kind (Basic ''Byte'' Uint8) = Uint8
   \<and> buildRootFromSlice (exampleDynSsz True (verdictOf False False False) None)
       (SliceOf [] (SliceOf [] (Basic ''Byte'' Uint8))) (SeqV [BytesV [1]]) exampleHasher [] False
     = Failed (UnsupportedNesting ''Byte'') exampleHasher
   \<and> sliceByteItems False (SeqV [BytesV [1]])
       [\<lparr>hsize = 1\<rparr>, \<lparr>hsize = 18446744073709551615\<rparr>] 0 1 exampleHasher
     = Done (MerkleizeWithMixin (AppendBytes32 exampleHasher [1]) (Index exampleHasher) 1 0)"
  by (simp add: buildRootFromSlice.simps sliceByteItems.simps byteType_def Let_def)

text \<open>
  C7 as amended, for a sequence whose elements are arrays or slices of \<open>itemType\<close>.
  If \<open>itemType\<close> is not \<open>byteType\<close> (as when its kind is not \<open>uint8\<close>) the call fails
  with \<open>UnsupportedNesting\<close> and leaves the buffer as it was. If it is, the call is
  the loop over the elements followed by the finalization; the loop takes each
  element's bytes and, when a second max-size dimension is present, packs them into
  whole chunks and combines them with a mixin of their byte length under the capacity
  \<open>(maxSizeHints[1] + 31) div 32\<close> in 64-bit arithmetic, and otherwise writes them
  with \<open>PutBytes\<close>. That capacity is \<open>ceil(size / 32)\<close> as long as \<open>size + 31\<close> does
  not overflow.
\<close>

theorem nested_byte_sequences:
  assumes "Elem sourceType = Some elemType"
    and "(if Kind elemType = Ptr then Elem elemType else Some elemType) = Some fieldType"
    and "Len sourceValue = Some sliceLen"
    and "Kind fieldType = Array \<or> Kind fieldType = Slice"
    and "Elem fieldType = Some itemType"
  shows "(Kind itemType \<noteq> Uint8 \<longrightarrow> itemType \<noteq> byteType)
       \<and> (itemType \<noteq> byteType \<longrightarrow>
            buildRootFromSlice d sourceType sourceValue hh maxSizeHints isArray
              = Failed (UnsupportedNesting (Name itemType)) hh)
       \<and> (itemType = byteType \<longrightarrow>
            buildRootFromSlice d sourceType sourceValue hh maxSizeHints isArray
              = (case sliceByteItems (Kind elemType = Ptr) sourceValue maxSizeHints 0 sliceLen hh of
                   Done hh' \<Rightarrow> Done (finalizeSlice hh' (Index hh) sliceLen 0 maxSizeHints)
                 | Failed err hh' \<Rightarrow> Failed err hh'
                 | Panicked \<Rightarrow> Panicked))
       \<and> (\<forall>i hh1 fieldValue0 fieldValue fieldBytes.
            i < sliceLen \<and> Index_v sourceValue i = Some fieldValue0
            \<and> (if Kind elemType = Ptr then Elem_v fieldValue0 else Some fieldValue0) = Some fieldValue
            \<and> Bytes fieldValue = Some fieldBytes \<longrightarrow>
            sliceByteItems (Kind elemType = Ptr) sourceValue maxSizeHints i sliceLen hh1
              = sliceByteItems (Kind elemType = Ptr) sourceValue maxSizeHints (Suc i) sliceLen
                  (if length maxSizeHints > 1 then
                     MerkleizeWithMixin (AppendBytes32 hh1 fieldBytes) (Index hh1)
                       (of_nat (length fieldBytes)) ((hsize (maxSizeHints ! 1) + 31) div 32)
                   else PutBytes hh1 fieldBytes))
       \<and> (unat (hsize m) + 31 < 2 ^ 64 \<longrightarrow>
            unat ((hsize m + 31) div 32) = (unat (hsize m) + 31) div 32)"
proof (intro conjI)
  show "Kind itemType \<noteq> Uint8 \<longrightarrow> itemType \<noteq> byteType"
    by (auto simp: byteType_def)
  show "itemType \<noteq> byteType \<longrightarrow>
          buildRootFromSlice d sourceType sourceValue hh maxSizeHints isArray
            = Failed (UnsupportedNesting (Name itemType)) hh"
    by (simp add: slice_nested_elements [OF assms(1-4)] assms(5))
  show "itemType = byteType \<longrightarrow>
            buildRootFromSlice d sourceType sourceValue hh maxSizeHints isArray
              = (case sliceByteItems (Kind elemType = Ptr) sourceValue maxSizeHints 0 sliceLen hh of
                   Done hh' \<Rightarrow> Done (finalizeSlice hh' (Index hh) sliceLen 0 maxSizeHints)
                 | Failed err hh' \<Rightarrow> Failed err hh'
                 | Panicked \<Rightarrow> Panicked)"
    by (simp add: slice_nested_elements [OF assms(1-4)] assms(5))
  show "\<forall>i hh1 fieldValue0 fieldValue fieldBytes.
            i < sliceLen \<and> Index_v sourceValue i = Some fieldValue0
            \<and> (if Kind elemType = Ptr then Elem_v fieldValue0 else Some fieldValue0) = Some fieldValue
            \<and> Bytes fieldValue = Some fieldBytes \<longrightarrow>
            sliceByteItems (Kind elemType = Ptr) sourceValue maxSizeHints i sliceLen hh1
              = sliceByteItems (Kind elemType = Ptr) sourceValue maxSizeHints (Suc i) sliceLen
                  (if length maxSizeHints > 1 then
                     MerkleizeWithMixin (AppendBytes32 hh1 fieldBytes) (Index hh1)
                       (of_nat (length fieldBytes)) ((hsize (maxSizeHints ! 1) + 31) div 32)
                   else PutBytes hh1 fieldBytes)"
  proof (intro allI impI, elim conjE)
    fix i hh1 fieldValue0 fieldValue fieldBytes
    assume "i < sliceLen" "Index_v sourceValue i = Some fieldValue0"
      "(if Kind elemType = Ptr then Elem_v fieldValue0 else Some fieldValue0) = Some fieldValue"
      "Bytes fieldValue = Some fieldBytes"
    then show "sliceByteItems (Kind elemType = Ptr) sourceValue maxSizeHints i sliceLen hh1
              = sliceByteItems (Kind elemType = Ptr) sourceValue maxSizeHints (Suc i) sliceLen
                  (if length maxSizeHints > 1 then
                     MerkleizeWithMixin (AppendBytes32 hh1 fieldBytes) (Index hh1)
                       (of_nat (length fieldBytes)) ((hsize (maxSizeHints ! 1) + 31) div 32)
                   else PutBytes hh1 fieldBytes)"
      by (subst sliceByteItems.simps) (simp add: Let_def)
  qed
  show "unat (hsize m) + 31 < 2 ^ 64 \<longrightarrow>
          unat ((hsize m + 31) div 32) = (unat (hsize m) + 31) div 32"
  proof
    assume "unat (hsize m) + 31 < 2 ^ 64"
    then have "unat (hsize m + 31) = unat (hsize m) + 31"
      using unat_add_lem [of "hsize m" 31] by simp
    then show "unat ((hsize m + 31) div 32) = (unat (hsize m) + 31) div 32"
      by (simp add: unat_div)
  qed
qed
theorem nested_byte_sequences_witness:
  "buildRootFromSlice (exampleDynSsz True (verdictOf False False False) None)
       (SliceOf [] (SliceOf [] byteType)) (SeqV [BytesV [1, 2]]) exampleHasher
       [\<lparr>hsize = 4\<rparr>, \<lparr>hsize = 64\<rparr>] False
     = Done (finalizeSlice
         (MerkleizeWithMixin (AppendBytes32 exampleHasher [1, 2]) (Index exampleHasher) 2 2)
         (Index exampleHasher) 1 0 [\<lparr>hsize = 4\<rparr>, \<lparr>hsize = 64\<rparr>])
   \<and> unat ((hsize \<lparr>hsize = 64\<rparr> + 31) div 32) = 2"
proof -
  note t = nested_byte_sequences
    [of "SliceOf [] (SliceOf [] byteType)" "SliceOf [] byteType" "SliceOf [] byteType"
        "SeqV [BytesV [1, 2]]" 1 byteType
        "exampleDynSsz True (verdictOf False False False) None" exampleHasher
        "[\<lparr>hsize = 4\<rparr>, \<lparr>hsize = 64\<rparr>]" False "\<lparr>hsize = 64\<rparr>"]
  have step: "sliceByteItems False (SeqV [BytesV [1, 2]]) [\<lparr>hsize = 4\<rparr>, \<lparr>hsize = 64\<rparr>] 0 1 exampleHasher
     = Done (MerkleizeWithMixin (AppendBytes32 exampleHasher [1, 2]) (Index exampleHasher) 2 2)"
    by (simp add: sliceByteItems.simps Let_def)
  from t step show ?thesis by simp
qed

subsection \<open>C8: the bound of a bitlist\<close>

text \<open>
  C8: on the generic path, a value whose type name marks it as a bitlist is written
  with \<open>PutBitlist\<close>, under the bound \<open>maxSizeHints[0]\<close> in bits when a max-size hint
  is present and under 8 times its byte length when none is; no error comes from a
  missing hint.
\<close>

theorem bitlist_bound:
  assumes "derefPtr sourceType0 sourceValue0 = Some (sourceType, sourceValue)"
    and "getFastsszHashCompatibility d sourceType sizeHints maxSizeHints = Inr fastsszCompat"
    and "fastPath d fastsszCompat sourceType sourceValue = Some None"
    and "Contains (Name sourceType) ''Bitlist''"
    and "Bytes sourceValue = Some bytes"
  shows "(maxSizeHints = [] \<longrightarrow>
            buildRootFromType d sourceType0 sourceValue0 hh sizeHints maxSizeHints
              = Done (PutBitlist hh bytes (of_nat (8 * length bytes))))
         \<and> (\<forall>m ms. maxSizeHints = m # ms \<longrightarrow>
            buildRootFromType d sourceType0 sourceValue0 hh sizeHints maxSizeHints
              = Done (PutBitlist hh bytes (hsize m)))"
proof -
  have "buildRootFromType d sourceType0 sourceValue0 hh sizeHints maxSizeHints
          = Done (PutBitlist hh bytes
              (if length maxSizeHints > 0 then hsize (maxSizeHints ! 0)
               else of_nat (length bytes * 8)))"
    using assms(4,5) by (simp add: generic_dispatch [OF assms(1-3)])
  then show ?thesis by (auto simp: mult.commute)
qed

theorem bitlist_bound_witness:
  "Contains ''Bitlist'' ''Bitlist''
   \<and> buildRootFromType (exampleDynSsz True (verdictOf False False False) None)
       (SliceOf ''Bitlist'' byteType) (BytesV [5]) exampleHasher [] []
     = Done (PutBitlist exampleHasher [5] 8)
   \<and> buildRootFromType (exampleDynSsz True (verdictOf False False False) None)
       (SliceOf ''Bitlist'' byteType) (BytesV [5]) exampleHasher [] [\<lparr>hsize = 2048\<rparr>]
     = Done (PutBitlist exampleHasher [5] 2048)"
  using bitlist_bound
    [of "SliceOf ''Bitlist'' byteType" "BytesV [5]" "SliceOf ''Bitlist'' byteType" "BytesV [5]"
        "exampleDynSsz True (verdictOf False False False) None" "[]" "[]"
        "verdictOf False False False" "[5]" exampleHasher]
    bitlist_bound
    [of "SliceOf ''Bitlist'' byteType" "BytesV [5]" "SliceOf ''Bitlist'' byteType" "BytesV [5]"
        "exampleDynSsz True (verdictOf False False False) None" "[]" "[\<lparr>hsize = 2048\<rparr>]"
        "verdictOf False False False" "[5]" exampleHasher]
  by (simp add: ex_defs)

subsection \<open>C9: kinds without a rule\<close>

text \<open>
  C9: on the generic path, for a type that is not named as a bitlist and whose kind
  after the dereference is none of struct, array, slice, bool and the unsigned
  integers of 8, 16, 32 and 64 bits, \<open>buildRootFromType\<close> returns the error
  \<open>UnsupportedType\<close> and the buffer is as it was on entry; the loop over the fields
  of a struct that meets such a field returns that error at once.
\<close>

theorem unsupported_kind_fails:
  assumes "derefPtr sourceType0 sourceValue0 = Some (sourceType, sourceValue)"
    and "getFastsszHashCompatibility d sourceType sizeHints maxSizeHints = Inr fastsszCompat"
    and "fastPath d fastsszCompat sourceType sourceValue = Some None"
    and "\<not> Contains (Name sourceType) ''Bitlist''"
    and "Kind sourceType \<notin> {Struct, Array, Slice, Bool, Uint8, Uint16, Uint32, Uint64}"
  shows "buildRootFromType d sourceType0 sourceValue0 hh sizeHints maxSizeHints
           = Failed (UnsupportedType sourceType) hh
         \<and> (\<forall>structType structValue i n field fieldValue.
               i < n \<and> Field_t structType i = Some field
               \<and> Field_v structValue i = Some fieldValue
               \<and> derefPtr (FType field) fieldValue = Some (sourceType0, sourceValue0)
               \<and> getSszFieldSize d field = Inr sizeHints
               \<and> getSszMaxSizeTag d field = Inr maxSizeHints
               \<longrightarrow> structFields d structType structValue i n hh
                     = Failed (UnsupportedType sourceType) hh)"
proof -
  have top: "buildRootFromType d sourceType0 sourceValue0 hh sizeHints maxSizeHints
               = Failed (UnsupportedType sourceType) hh"
    using assms(4,5) by (simp add: generic_dispatch [OF assms(1-3)])
  have "structFields d structType structValue i n hh = Failed (UnsupportedType sourceType) hh"
    if "i < n" "Field_t structType i = Some field" "Field_v structValue i = Some fieldValue"
      "derefPtr (FType field) fieldValue = Some (sourceType0, sourceValue0)"
      "getSszFieldSize d field = Inr sizeHints" "getSszMaxSizeTag d field = Inr maxSizeHints"
    for structType structValue i n field fieldValue
    using that top
    by (simp add: structFields.simps [of d structType structValue i])
  with top show ?thesis by blast
qed

theorem unsupported_kind_fails_witness:
  "buildRootFromType (exampleDynSsz True (verdictOf False False False) None)
       (Basic ''float64'' Float64) OtherV exampleHasher [] []
     = Failed (UnsupportedType (Basic ''float64'' Float64)) exampleHasher
   \<and> structFields (exampleDynSsz True (verdictOf False False False) None)
       (StructOf ''Price'' [StructField ''Value'' (Basic ''float64'' Float64) []])
       (StructV [OtherV]) 0 1 exampleHasher
     = Failed (UnsupportedType (Basic ''float64'' Float64)) exampleHasher"
  using unsupported_kind_fails
    [of "Basic ''float64'' Float64" OtherV "Basic ''float64'' Float64" OtherV
        "exampleDynSsz True (verdictOf False False False) None" "[]" "[]"
        "verdictOf False False False" exampleHasher]
  by (simp add: ex_defs)

subsection \<open>C10: the bitlist test comes before the kind\<close>

text \<open>
  C10: on the generic path, a type whose name contains \<open>Bitlist\<close> is hashed by the
  bitlist rule whatever its kind is, so the switch on the kind is not reached for
  it; its value is read with \<open>Bytes()\<close>, and a value that is not a byte sequence
  ends the call in a panic: no error is returned for it.
\<close>

theorem bitlist_name_precedes_kind:
  assumes "derefPtr sourceType0 sourceValue0 = Some (sourceType, sourceValue)"
    and "getFastsszHashCompatibility d sourceType sizeHints maxSizeHints = Inr fastsszCompat"
    and "fastPath d fastsszCompat sourceType sourceValue = Some None"
    and "Contains (Name sourceType) ''Bitlist''"
  shows "buildRootFromType d sourceType0 sourceValue0 hh sizeHints maxSizeHints =
           (case Bytes sourceValue of
              None \<Rightarrow> Panicked
            | Some bytes \<Rightarrow>
                Done (PutBitlist hh bytes
                  (if length maxSizeHints > 0 then hsize (maxSizeHints ! 0)
                   else of_nat (length bytes * 8))))
         \<and> (\<forall>err hh'. buildRootFromType d sourceType0 sourceValue0 hh sizeHints maxSizeHints
                \<noteq> Failed err hh')"
  using assms(4) by (auto simp: generic_dispatch [OF assms(1-3)] split: option.splits)

theorem bitlist_name_precedes_kind_witness:
  "Contains ''Bitlist64'' ''Bitlist''
   \<and> Kind (StructOf ''Bitlist64''
        [StructField ''size'' (Basic ''uint64'' Uint64) [],
         StructField ''data'' (SliceOf [] (Basic ''uint64'' Uint64)) []]) = Struct
   \<and> buildRootFromType (exampleDynSsz True (verdictOf False False False) None)
       (StructOf ''Bitlist64''
        [StructField ''size'' (Basic ''uint64'' Uint64) [],
         StructField ''data'' (SliceOf [] (Basic ''uint64'' Uint64)) []])
       (StructV [UintV 8, SeqV [UintV 5]]) exampleHasher [] []
     = Panicked"
  using bitlist_name_precedes_kind
    [of "StructOf ''Bitlist64''
        [StructField ''size'' (Basic ''uint64'' Uint64) [],
         StructField ''data'' (SliceOf [] (Basic ''uint64'' Uint64)) []]"
        "StructV [UintV 8, SeqV [UintV 5]]"
        "StructOf ''Bitlist64''
        [StructField ''size'' (Basic ''uint64'' Uint64) [],
         StructField ''data'' (SliceOf [] (Basic ''uint64'' Uint64)) []]"
        "StructV [UintV 8, SeqV [UintV 5]]"
        "exampleDynSsz True (verdictOf False False False) None" "[]" "[]"
        "verdictOf False False False" exampleHasher]
  by (simp add: ex_defs)

end
